theory Spec2Isabelle
  imports Main
begin

section \<open>The Page model of the devtools backend (src/lib/backend/page.js)\<close>

text \<open>
  A \<open>Page\<close> sits between a device and a devtools frontend. It keeps the list of enabled
  domains (\<open>this.domains\<close>), the frontend web socket (\<open>this.ws\<close>) and the flag
  \<open>this.isConnected\<close>. Everything the class does to the outside (events emitted on the
  page itself, text handed to \<open>ws.send\<close>, calls into the middleware registry) is recorded,
  in order, in the field \<open>trace\<close> of the state.
\<close>

subsection \<open>JavaScript values\<close>

text \<open>
  Messages are JavaScript values as \<open>JSON.parse\<close> or a caller builds them. An object is the
  list of its own properties in insertion order; the first binding of a key is the one read.
  Numbers are integers here (ids); floating point is not modelled.
\<close>

datatype jsval =
    JUndefined
  | JNull
  | JBool bool
  | JNum int
  | JStr string
  | JArr "jsval list"
  | JObj "(string \<times> jsval) list"

datatype js_error = TypeError | SyntaxError

text \<open>Every method of the class returns nothing of interest: it returns or it throws.\<close>

datatype outcome = Returned | Thrown js_error

text \<open>\<open>v.k\<close> for the keys the class reads (none of them inherited): a missing property, and
  any property of a primitive or an array, reads as \<open>undefined\<close>. Reading a property of
  \<open>undefined\<close> or \<open>null\<close> throws; callers test \<open>nullish\<close> first.\<close>

fun get_prop :: "jsval \<Rightarrow> string \<Rightarrow> jsval" where
  "get_prop (JObj kvs) k = (case map_of kvs k of Some v \<Rightarrow> v | None \<Rightarrow> JUndefined)"
| "get_prop v k = JUndefined"

fun nullish :: "jsval \<Rightarrow> bool" where
  "nullish JUndefined = True"
| "nullish JNull = True"
| "nullish v = False"

fun truthy :: "jsval \<Rightarrow> bool" where
  "truthy JUndefined = False"
| "truthy JNull = False"
| "truthy (JBool b) = b"
| "truthy (JNum n) = (n \<noteq> 0)"
| "truthy (JStr s) = (s \<noteq> [])"
| "truthy v = True"

text \<open>\<open>delete v.k\<close>: removes the own property; nothing happens on a primitive or an array.\<close>

fun delete_prop :: "jsval \<Rightarrow> string \<Rightarrow> jsval" where
  "delete_prop (JObj kvs) k = JObj (filter (\<lambda>kv. fst kv \<noteq> k) kvs)"
| "delete_prop v k = v"

fun has_key :: "string \<Rightarrow> jsval \<Rightarrow> bool" where
  "has_key k (JObj kvs) = (k \<in> fst ` set kvs)"
| "has_key k v = False"

subsection \<open>Library operations on strings and arrays\<close>

text \<open>\<open>indexOf\<close> of strings (for a one-character needle) and of arrays: the index of the
  first match, or \<open>-1\<close>.\<close>

fun index_from :: "nat \<Rightarrow> 'a list \<Rightarrow> 'a \<Rightarrow> int" where
  "index_from i [] x = - 1"
| "index_from i (y # ys) x = (if y = x then int i else index_from (Suc i) ys x)"

definition js_indexOf :: "'a list \<Rightarrow> 'a \<Rightarrow> int" where
  "js_indexOf xs x = index_from 0 xs x"

definition js_includes :: "'a list \<Rightarrow> 'a \<Rightarrow> bool" where
  "js_includes xs x = (x \<in> set xs)"

text \<open>A relative index as \<open>slice\<close> and \<open>splice\<close> read it: negative counts from the end,
  and the result is clamped to \<open>0 .. length\<close>.\<close>

definition clamp_index :: "nat \<Rightarrow> int \<Rightarrow> nat" where
  "clamp_index len i = (if i < 0 then nat (max (int len + i) 0) else min (nat i) len)"

definition js_slice :: "'a list \<Rightarrow> int \<Rightarrow> int \<Rightarrow> 'a list" where
  "js_slice xs start end =
     (let from = clamp_index (length xs) start;
          to = clamp_index (length xs) end
      in take (to - from) (drop from xs))"

definition js_slice_from :: "'a list \<Rightarrow> int \<Rightarrow> 'a list" where
  "js_slice_from xs start = drop (clamp_index (length xs) start) xs"

text \<open>\<open>xs.splice(start, deleteCount)\<close>: the array afterwards. The second argument is a
  count, clamped to what is left after \<open>start\<close>.\<close>

definition js_splice :: "'a list \<Rightarrow> int \<Rightarrow> int \<Rightarrow> 'a list" where
  "js_splice xs start deleteCount =
     (let actualStart = clamp_index (length xs) start;
          actualDeleteCount = min (nat (max deleteCount 0)) (length xs - actualStart)
      in take actualStart xs @ drop (actualStart + actualDeleteCount) xs)"

subsection \<open>State, effects and environment\<close>

datatype ready_state = CONNECTING | OPEN | CLOSING | CLOSED

datatype effect =
    Emit jsval "jsval list"
  | WsSend jsval
  | Transform jsval jsval jsval

text \<open>
  \<^item> \<open>Emit name args\<close>: \<open>this.emit(name, ...args)\<close>.
  \<^item> \<open>WsSend v\<close>: \<open>this.ws.send(JSON.stringify(v))\<close>; the text on the wire is the JSON
    text of \<open>v\<close>, so its top-level keys are keys of \<open>v\<close>.
  \<^item> \<open>Transform d m r\<close>: the function found at \<open>middleware[d][m]\<close> was called on \<open>r\<close>.

  \<open>ws\<close> is \<open>None\<close> when \<open>this.ws\<close> is not set; otherwise it holds the socket's
  \<open>readyState\<close> at the time of the call.
\<close>

record page =
  isConnected :: bool
  domains :: "string list"
  ws :: "ready_state option"
  trace :: "effect list"

text \<open>
  The modules \<open>../../logger\<close>, \<open>../middleware\<close> and the built-in \<open>JSON.parse\<close> are
  not part of the file; they are parameters.
  \<^item> \<open>log_callable\<close>: whether the value \<open>logger('Page')\<close> can itself be called, as
    \<open>enable\<close> does with \<open>this.log(...)\<close>. Its methods \<open>info\<close> and \<open>debug\<close> only
    write log lines, which are not recorded.
  \<^item> \<open>middleware d m\<close>: the outcome of \<open>middleware[d] && middleware[d][m]\<close> as a function
    of the two key values: the function registered there, or nothing. An absent key value is
    \<open>JUndefined\<close> (JavaScript looks up the property named "undefined"). A registered
    function maps the result payload to a new one (\<open>this.requestList\<close> is never set by the
    class).
  \<^item> \<open>json_parse\<close>: \<open>JSON.parse\<close>, \<open>None\<close> when it throws.
\<close>

record env =
  log_callable :: bool
  middleware :: "jsval \<Rightarrow> jsval \<Rightarrow> (jsval \<Rightarrow> jsval) option"
  json_parse :: "string \<Rightarrow> jsval option"

definition emit :: "jsval \<Rightarrow> jsval list \<Rightarrow> page \<Rightarrow> page" where
  "emit name args p = p\<lparr>trace := trace p @ [Emit name args]\<rparr>"

subsection \<open>The frontend connection\<close>

definition connectWebSocket :: "ready_state \<Rightarrow> page \<Rightarrow> page" where
  "connectWebSocket sock p = p\<lparr>ws := Some sock\<rparr>"

definition disconnectWebSocket :: "page \<Rightarrow> page" where
  "disconnectWebSocket p = p\<lparr>isConnected := False, ws := None\<rparr>"

text \<open>The listeners \<open>connectWebSocket\<close> registers for \<open>open\<close> and \<open>close\<close>. The one for
  \<open>close\<close> is \<open>() => ::this.disconnectWebSocket\<close>: it evaluates to the bound method
  and returns it; it does not call it. The model returns that function next to the state.\<close>

definition on_ws_open :: "page \<Rightarrow> page" where
  "on_ws_open p = p\<lparr>isConnected := True\<rparr>"

definition on_ws_close :: "page \<Rightarrow> (page \<Rightarrow> page) \<times> page" where
  "on_ws_close p = (disconnectWebSocket, p)"

subsection \<open>Enabling and disabling domains\<close>

text \<open>The argument of \<open>enable\<close>: a domain name or an array (of names or arrays).\<close>

datatype domain_arg = Name string | Names "domain_arg list"

fun enable :: "env \<Rightarrow> domain_arg \<Rightarrow> page \<Rightarrow> outcome \<times> page"
  and enable_each :: "env \<Rightarrow> domain_arg list \<Rightarrow> page \<Rightarrow> outcome \<times> page" where
  "enable e (Names ds) p = enable_each e ds p"
| "enable e (Name d) p =
     (if js_includes (domains p) d
      then (if log_callable e then (Returned, p) else (Thrown TypeError, p))
      else (let p1 = emit (JStr ''domainEnabled'') [JStr d] p
            in (Returned, p1\<lparr>domains := domains p1 @ [d]\<rparr>)))"
| "enable_each e [] p = (Returned, p)"
| "enable_each e (d # ds) p =
     (case enable e d p of
        (Returned, p1) \<Rightarrow> enable_each e ds p1
      | (Thrown err, p1) \<Rightarrow> (Thrown err, p1))"

definition disable :: "string \<Rightarrow> page \<Rightarrow> page" where
  "disable d p =
     (let pos = js_indexOf (domains p) d
      in p\<lparr>domains := js_splice (domains p) pos (pos + 1)\<rparr>)"

text \<open>\<open>isDomainSupported\<close> takes a domain name or a message. For a message, \<open>msg.method || ''\<close>
  is split at the first dot. A \<open>method\<close> that is an array also has \<open>indexOf\<close> and
  \<open>slice\<close>; the slice is a fresh array, which \<open>includes\<close> never finds. Any other truthy
  \<open>method\<close> has no \<open>indexOf\<close>.\<close>

definition isDomainSupported :: "jsval \<Rightarrow> page \<Rightarrow> js_error + bool" where
  "isDomainSupported msg p =
     (case msg of
        JStr s \<Rightarrow> Inr (js_includes (domains p) s)
      | _ \<Rightarrow>
        if nullish msg then Inl TypeError
        else (case (if truthy (get_prop msg ''method'') then get_prop msg ''method'' else JStr [])
              of JStr method \<Rightarrow>
                   (let splitPoint = js_indexOf method (CHR ''.'')
                    in Inr (js_includes (domains p) (js_slice method 0 splitPoint)))
               | JArr xs \<Rightarrow> Inr False
               | _ \<Rightarrow> Inl TypeError))"

subsection \<open>Sending to the frontend\<close>

text \<open>
  \<open>send\<close> calls itself on the output of a middleware function, so the model takes the
  number of nested calls it may make; \<open>None\<close> means that number was not enough. The third
  component of the result is the caller's object \<open>msg\<close> after the call: \<open>send\<close> deletes
  properties of the object it is given, and nothing else keeps a reference to it. The object
  of the nested call is a new one.
\<close>

fun send :: "nat \<Rightarrow> env \<Rightarrow> jsval \<Rightarrow> page \<Rightarrow> (outcome \<times> page \<times> jsval) option" where
  "send 0 e msg p = None"
| "send (Suc k) e msg p =
     (case ws p of
        None \<Rightarrow> Some (Returned, p, msg)
      | Some readyState \<Rightarrow>
          if nullish msg then Some (Thrown TypeError, p, msg)
          else (case middleware e (get_prop msg ''_domain'') (get_prop msg ''_method'') of
                  Some f \<Rightarrow>
                    (let result = f (get_prop msg ''result'');
                         p1 = p\<lparr>trace := trace p @
                                [Transform (get_prop msg ''_domain'') (get_prop msg ''_method'')
                                   (get_prop msg ''result'')]\<rparr>
                     in case send k e (JObj [(''id'', get_prop msg ''id''), (''result'', result)]) p1 of
                          None \<Rightarrow> None
                        | Some (r, p2, _) \<Rightarrow> Some (r, p2, msg))
                | None \<Rightarrow>
                    (let msg1 = delete_prop (delete_prop msg ''_domain'') ''_method''
                     in if readyState \<noteq> OPEN then Some (Returned, p, msg1)
                        else Some (Returned, p\<lparr>trace := trace p @ [WsSend msg1]\<rparr>, msg1))))"

subsection \<open>Requests from the frontend\<close>

text \<open>A text payload is parsed first. \<open>msg.method\<close> must have \<open>indexOf\<close> and \<open>slice\<close>:
  a string is split at its first dot; an array is split too, into arrays, which are neither
  \<open>'enable'\<close> nor \<open>'disable'\<close> nor an enabled domain; anything else throws.\<close>

definition handleIncomming :: "nat \<Rightarrow> env \<Rightarrow> jsval \<Rightarrow> page \<Rightarrow> (outcome \<times> page) option" where
  "handleIncomming k e payload p =
     (case (case payload of JStr s \<Rightarrow> json_parse e s | _ \<Rightarrow> Some payload) of
        None \<Rightarrow> Some (Thrown SyntaxError, p)
      | Some msg \<Rightarrow>
          if nullish msg then Some (Thrown TypeError, p)
          else (case get_prop msg ''method'' of
                  JStr m \<Rightarrow>
                    (let splitPoint = js_indexOf m (CHR ''.'');
                         domain = js_slice m 0 splitPoint;
                         method = js_slice_from m (splitPoint + 1)
                     in if method = ''enable'' \<and> isDomainSupported (JStr domain) p = Inr True
                        then (case enable e (Name domain) p of
                                (Thrown err, p1) \<Rightarrow> Some (Thrown err, p1)
                              | (Returned, p1) \<Rightarrow>
                                  map_option (\<lambda>(r, p2, _). (r, p2))
                                    (send k e (JObj [(''id'', get_prop msg ''id''), (''params'', JObj [])]) p1))
                        else if method = ''disable''
                        then Some (Returned,
                                   emit (JObj [(''id'', get_prop msg ''id''), (''params'', JObj [])]) []
                                     (disable domain p))
                        else (case isDomainSupported msg p of
                                Inl err \<Rightarrow> Some (Thrown err, p)
                              | Inr False \<Rightarrow> Some (Returned, p)
                              | Inr True \<Rightarrow>
                                  Some (Returned,
                                        emit (JStr ''incomming'')
                                          [JObj [(''method'', JStr method), (''domain'', JStr domain),
                                                 (''msg'', msg)]] p)))
                | JArr xs \<Rightarrow> Some (Returned, p)
                | _ \<Rightarrow> Some (Thrown TypeError, p)))"

section \<open>Properties\<close>

subsection \<open>Facts about the library operations\<close>

lemma index_from_takeWhile:
  "index_from i xs x =
     (if x \<in> set xs then int (i + length (takeWhile (\<lambda>y. y \<noteq> x) xs)) else - 1)"
  by (induction xs arbitrary: i) auto

lemma js_indexOf_absent: "x \<notin> set xs \<Longrightarrow> js_indexOf xs x = - 1"
  by (simp add: js_indexOf_def index_from_takeWhile)

lemma js_indexOf_present:
  "x \<notin> set ys \<Longrightarrow> js_indexOf (ys @ x # zs) x = int (length ys)"
proof -
  assume "x \<notin> set ys"
  then have "takeWhile (\<lambda>y. y \<noteq> x) (ys @ x # zs) = ys"
    by (induction ys) auto
  then show ?thesis
    by (simp add: js_indexOf_def index_from_takeWhile)
qed

lemma js_splice_absent: "js_splice xs (- 1) 0 = xs"
  by (cases xs) (auto simp: js_splice_def clamp_index_def)

lemma js_splice_present:
  "js_splice (ys @ x # zs) (int (length ys)) (int (length ys) + 1) = ys @ drop (length ys) zs"
proof -
  have "nat (int (length ys) + 1) = Suc (length ys)" by simp
  then show ?thesis
    by (auto simp: js_splice_def clamp_index_def Let_def min_def)
qed

lemma split_dotted:
  assumes "CHR ''.'' \<notin> set D"
  shows "js_indexOf (D @ CHR ''.'' # M) (CHR ''.'') = int (length D)"
    and "js_slice (D @ CHR ''.'' # M) 0 (js_indexOf (D @ CHR ''.'' # M) (CHR ''.'')) = D"
    and "js_slice_from (D @ CHR ''.'' # M) (js_indexOf (D @ CHR ''.'' # M) (CHR ''.'') + 1) = M"
proof -
  show idx: "js_indexOf (D @ CHR ''.'' # M) (CHR ''.'') = int (length D)"
    using assms by (rule js_indexOf_present)
  show "js_slice (D @ CHR ''.'' # M) 0 (js_indexOf (D @ CHR ''.'' # M) (CHR ''.'')) = D"
    by (simp add: idx js_slice_def clamp_index_def)
  have "nat (int (length D) + 1) = Suc (length D)" by simp
  then show "js_slice_from (D @ CHR ''.'' # M) (js_indexOf (D @ CHR ''.'' # M) (CHR ''.'') + 1) = M"
    by (simp add: idx js_slice_from_def clamp_index_def)
qed

subsection \<open>The list of enabled domains\<close>

text \<open>What \<open>disable\<close> does in general: nothing for an absent domain; for a domain at
  index \<open>length ys\<close>, that entry goes and so do the next \<open>length ys\<close> entries.\<close>

lemma disable_absent: "d \<notin> set (domains p) \<Longrightarrow> disable d p = p"
  by (simp add: disable_def js_indexOf_absent js_splice_absent)

lemma disable_present:
  "d \<notin> set ys \<Longrightarrow> domains p = ys @ d # zs \<Longrightarrow>
   disable d p = p\<lparr>domains := ys @ drop (length ys) zs\<rparr>"
  using js_splice_present [of ys d zs]
  by (simp add: disable_def js_indexOf_present Let_def)

lemma disable_not_member:
  assumes "distinct (domains p)"
  shows "d \<notin> set (domains (disable d p))"
proof (cases "d \<in> set (domains p)")
  case False
  then show ?thesis by (simp add: disable_absent)
next
  case True
  then obtain ys zs where split: "domains p = ys @ d # zs" and first: "d \<notin> set ys"
    by (meson split_list_first)
  from assms split have "d \<notin> set zs" by simp
  then have "d \<notin> set (drop (length ys) zs)" by (meson in_set_dropD)
  with first show ?thesis by (simp add: disable_present [OF first split])
qed

text \<open>The list holds no duplicates: it starts empty, and both operations keep it so.\<close>

lemma disable_distinct: "distinct (domains p) \<Longrightarrow> distinct (domains (disable d p))"
proof (cases "d \<in> set (domains p)")
  case False
  assume "distinct (domains p)"
  with False show ?thesis by (simp add: disable_absent)
next
  case True
  assume dist: "distinct (domains p)"
  from True obtain ys zs where split: "domains p = ys @ d # zs" and first: "d \<notin> set ys"
    by (meson split_list_first)
  have "set (drop (length ys) zs) \<subseteq> set zs" by (rule set_drop_subset)
  with dist split show ?thesis
    by (auto simp: disable_present [OF first split] dest: in_set_dropD)
qed

lemma enable_distinct:
  "distinct (domains p) \<Longrightarrow> distinct (domains (snd (enable e a p)))"
  "distinct (domains p) \<Longrightarrow> distinct (domains (snd (enable_each e as p)))"
proof (induction e a p and e as p rule: enable_enable_each.induct)
  case (1 e ds p)
  then show ?case by simp
next
  case (2 e d p)
  then show ?case by (simp add: js_includes_def emit_def Let_def)
next
  case (3 e p)
  then show ?case by simp
next
  case (4 e d ds p)
  show ?case
  proof (cases "enable e d p")
    case (Pair r p1)
    with "4.IH"(1) "4.prems" have d1: "distinct (domains p1)" by simp
    show ?thesis
    proof (cases r)
      case Returned
      with Pair "4.IH"(2) d1 show ?thesis by simp
    next
      case (Thrown err)
      with Pair d1 show ?thesis by simp
    qed
  qed
qed

text \<open>
  C1. Claimed: \<open>disable(D)\<close> removes exactly the entry D when present, keeping all other
  entries in order, and changes nothing when D is absent. \<open>disable\<close> passes \<open>pos + 1\<close>
  as the second argument of \<open>splice\<close>, which is a count: on the list A, B, C, disabling B
  (index 1) removes two entries, B and the C after it. Disabling A (index 0) removes one
  entry, and disabling an absent D removes none.
\<close>

theorem disable_removes_following_entry:
  "domains (disable ''B'' \<lparr>isConnected = False, domains = [''A'', ''B'', ''C''],
                            ws = None, trace = []\<rparr>) = [''A'']
   \<and> domains (disable ''A'' \<lparr>isConnected = False, domains = [''A'', ''B'', ''C''],
                              ws = None, trace = []\<rparr>) = [''B'', ''C'']
   \<and> domains (disable ''D'' \<lparr>isConnected = False, domains = [''A'', ''B'', ''C''],
                              ws = None, trace = []\<rparr>) = [''A'', ''B'', ''C'']"
  by (simp add: disable_def js_indexOf_def js_splice_def clamp_index_def)

text \<open>
  C6. \<open>enable\<close> is idempotent. On a list with at most one occurrence of \<open>d\<close>, after two
  calls of \<open>enable(d)\<close> the list holds \<open>d\<close> exactly once and the second call leaves the
  whole state as the first left it: nothing appended, no \<open>domainEnabled\<close> event. A call
  for a domain that is already enabled changes nothing; it ends in the call \<open>this.log(...)\<close>,
  which returns when the logger is callable and throws otherwise.
\<close>

theorem enable_idempotent:
  assumes "count_list (domains p) d \<le> 1"
  shows "count_list (domains (snd (enable e (Name d) (snd (enable e (Name d) p))))) d = 1
         \<and> snd (enable e (Name d) (snd (enable e (Name d) p))) = snd (enable e (Name d) p)
         \<and> (js_includes (domains p) d \<longrightarrow>
              enable e (Name d) p =
                (if log_callable e then Returned else Thrown TypeError, p))"
proof (cases "d \<in> set (domains p)")
  case True
  then have "count_list (domains p) d \<noteq> 0" by (simp add: count_list_0_iff)
  with assms have "count_list (domains p) d = 1" by simp
  with True show ?thesis by (simp add: js_includes_def)
next
  case False
  then have "count_list (domains p) d = 0" by (simp add: count_list_0_iff)
  with False show ?thesis by (simp add: js_includes_def emit_def Let_def)
qed

text \<open>C6 on the list holding Page only (Network is appended once, with one event), and on
  the list that already holds Network, with a logger that cannot be called.\<close>

theorem enable_idempotent_witness:
  "count_list (domains \<lparr>isConnected = False, domains = [''Page''], ws = None, trace = []\<rparr>)
     ''Network'' \<le> 1
   \<and> snd (enable \<lparr>log_callable = False, middleware = (\<lambda>d m. None), json_parse = (\<lambda>s. None)\<rparr>
             (Name ''Network'')
             (snd (enable \<lparr>log_callable = False, middleware = (\<lambda>d m. None), json_parse = (\<lambda>s. None)\<rparr>
                     (Name ''Network'')
                     \<lparr>isConnected = False, domains = [''Page''], ws = None, trace = []\<rparr>)))
     = \<lparr>isConnected = False, domains = [''Page'', ''Network''], ws = None,
        trace = [Emit (JStr ''domainEnabled'') [JStr ''Network'']]\<rparr>
   \<and> count_list (domains \<lparr>isConnected = False, domains = [''Page'', ''Network''], ws = None,
                            trace = []\<rparr>) ''Network'' \<le> 1
   \<and> js_includes (domains \<lparr>isConnected = False, domains = [''Page'', ''Network''], ws = None,
                             trace = []\<rparr>) ''Network''
   \<and> enable \<lparr>log_callable = False, middleware = (\<lambda>d m. None), json_parse = (\<lambda>s. None)\<rparr>
        (Name ''Network'')
        \<lparr>isConnected = False, domains = [''Page'', ''Network''], ws = None, trace = []\<rparr>
     = (Thrown TypeError,
        \<lparr>isConnected = False, domains = [''Page'', ''Network''], ws = None, trace = []\<rparr>)"
  using enable_idempotent [of "\<lparr>isConnected = False, domains = [''Page''], ws = None, trace = []\<rparr>"
      "''Network''"
      "\<lparr>log_callable = False, middleware = (\<lambda>d m. None), json_parse = (\<lambda>s. None)\<rparr>"]
    enable_idempotent [of "\<lparr>isConnected = False, domains = [''Page'', ''Network''], ws = None,
                            trace = []\<rparr>"
      "''Network''"
      "\<lparr>log_callable = False, middleware = (\<lambda>d m. None), json_parse = (\<lambda>s. None)\<rparr>"]
  by (simp add: js_includes_def emit_def)

subsection \<open>The close notification\<close>

text \<open>
  C3. Claimed: on a close notification of the attached frontend socket the page clears
  \<open>this.ws\<close> and sets \<open>isConnected\<close> to false. The registered listener only returns the
  bound \<open>disconnectWebSocket\<close>: after connecting, opening and a close notification the
  socket is still attached and \<open>isConnected\<close> is still true. Calling the function the
  listener returned would have cleared both.
\<close>

theorem close_listener_keeps_channel:
  "snd (on_ws_close (on_ws_open (connectWebSocket OPEN
          \<lparr>isConnected = False, domains = [], ws = None, trace = []\<rparr>)))
     = \<lparr>isConnected = True, domains = [], ws = Some OPEN, trace = []\<rparr>
   \<and> fst (on_ws_close (on_ws_open (connectWebSocket OPEN
          \<lparr>isConnected = False, domains = [], ws = None, trace = []\<rparr>)))
        \<lparr>isConnected = True, domains = [], ws = Some OPEN, trace = []\<rparr>
     = \<lparr>isConnected = False, domains = [], ws = None, trace = []\<rparr>"
  by (simp add: on_ws_close_def on_ws_open_def connectWebSocket_def disconnectWebSocket_def)

subsection \<open>Sending\<close>

lemma send_no_channel: "ws p = None \<Longrightarrow> send (Suc k) e msg p = Some (Returned, p, msg)"
  by simp

lemma send_plain:
  assumes "ws p = Some rs" and "\<not> nullish msg"
    and "middleware e (get_prop msg ''_domain'') (get_prop msg ''_method'') = None"
  shows "send (Suc k) e msg p =
           Some (Returned,
                 p\<lparr>trace := trace p @
                      (if rs = OPEN
                       then [WsSend (delete_prop (delete_prop msg ''_domain'') ''_method'')]
                       else [])\<rparr>,
                 delete_prop (delete_prop msg ''_domain'') ''_method'')"
  using assms by (simp add: Let_def)

lemma send_transform:
  assumes "ws p = Some rs" and "\<not> nullish msg"
    and "middleware e (get_prop msg ''_domain'') (get_prop msg ''_method'') = Some f"
  shows "send (Suc k) e msg p =
           (case send k e (JObj [(''id'', get_prop msg ''id''),
                                 (''result'', f (get_prop msg ''result''))])
                   (p\<lparr>trace := trace p @
                        [Transform (get_prop msg ''_domain'') (get_prop msg ''_method'')
                           (get_prop msg ''result'')]\<rparr>) of
              None \<Rightarrow> None
            | Some (r, p2, _) \<Rightarrow> Some (r, p2, msg))"
  using assms by (simp add: Let_def)

lemma has_key_delete_prop: "\<not> has_key k (delete_prop v k)"
  by (cases v) auto

lemma has_key_delete_prop_other: "\<not> has_key k v \<Longrightarrow> \<not> has_key k (delete_prop v k')"
  by (cases v) auto

lemma send_trace_private:
  "send k e msg p = Some (r, p', msg') \<Longrightarrow>
   \<exists>es. trace p' = trace p @ es \<and>
        (\<forall>v. WsSend v \<in> set es \<longrightarrow> \<not> has_key ''_domain'' v \<and> \<not> has_key ''_method'' v)"
proof (induction k arbitrary: msg p r p' msg')
  case 0
  then show ?case by simp
next
  case (Suc k)
  show ?case
  proof (cases "ws p")
    case None
    with Suc.prems show ?thesis by simp
  next
    case (Some rs)
    show ?thesis
    proof (cases "nullish msg")
      case True
      with Some Suc.prems show ?thesis by simp
    next
      case False
      show ?thesis
      proof (cases "middleware e (get_prop msg ''_domain'') (get_prop msg ''_method'')")
        case None
        have "\<not> has_key ''_domain'' (delete_prop (delete_prop msg ''_domain'') ''_method'')"
          by (simp add: has_key_delete_prop has_key_delete_prop_other)
        moreover have "\<not> has_key ''_method'' (delete_prop (delete_prop msg ''_domain'') ''_method'')"
          by (simp add: has_key_delete_prop)
        ultimately show ?thesis
          using Suc.prems send_plain [OF Some False None, of k] by (cases "rs = OPEN") auto
      next
        case (Some f)
        let ?p1 = "p\<lparr>trace := trace p @
                        [Transform (get_prop msg ''_domain'') (get_prop msg ''_method'')
                           (get_prop msg ''result'')]\<rparr>"
        let ?m1 = "JObj [(''id'', get_prop msg ''id''), (''result'', f (get_prop msg ''result''))]"
        from Suc.prems send_transform [OF \<open>ws p = Some rs\<close> False Some, of k]
        obtain m2 where inner: "send k e ?m1 ?p1 = Some (r, p', m2)"
          by (auto split: option.splits)
        from Suc.IH [OF inner] obtain es where
          es: "trace p' = trace ?p1 @ es"
            "\<forall>v. WsSend v \<in> set es \<longrightarrow> \<not> has_key ''_domain'' v \<and> \<not> has_key ''_method'' v"
          by blast
        then show ?thesis by auto
      qed
    qed
  qed
qed

text \<open>
  C5. Whatever \<open>send\<close> hands to \<open>ws.send\<close> has neither a \<open>_domain\<close> nor a \<open>_method\<close>
  key at its top level: this holds for every event \<open>WsSend\<close> a call of \<open>send\<close> adds to
  the trace, through the middleware or not. In particular a message with the fields id,
  result, _domain and _method, with nothing registered for that pair and the socket open, is
  transmitted as the object with the fields id and result alone.
\<close>

theorem send_wire_has_no_private_fields:
  "(send k e msg p = Some (r, p', msg') \<longrightarrow>
      (\<exists>es. trace p' = trace p @ es \<and>
            (\<forall>v. WsSend v \<in> set es \<longrightarrow> \<not> has_key ''_domain'' v \<and> \<not> has_key ''_method'' v)))
   \<and> (ws p = Some OPEN \<and> middleware e (JStr X) (JStr Y) = None \<longrightarrow>
        send (Suc j) e
          (JObj [(''id'', i), (''result'', res), (''_domain'', JStr X), (''_method'', JStr Y)]) p
        = Some (Returned,
                p\<lparr>trace := trace p @ [WsSend (JObj [(''id'', i), (''result'', res)])]\<rparr>,
                JObj [(''id'', i), (''result'', res)]))"
proof (intro conjI impI)
  assume "send k e msg p = Some (r, p', msg')"
  then show "\<exists>es. trace p' = trace p @ es \<and>
            (\<forall>v. WsSend v \<in> set es \<longrightarrow> \<not> has_key ''_domain'' v \<and> \<not> has_key ''_method'' v)"
    by (rule send_trace_private)
next
  let ?m = "JObj [(''id'', i), (''result'', res), (''_domain'', JStr X), (''_method'', JStr Y)]"
  assume a: "ws p = Some OPEN \<and> middleware e (JStr X) (JStr Y) = None"
  then have "middleware e (get_prop ?m ''_domain'') (get_prop ?m ''_method'') = None"
    by simp
  from send_plain [OF _ _ this, of p OPEN j] a
  show "send (Suc j) e ?m p
        = Some (Returned,
                p\<lparr>trace := trace p @ [WsSend (JObj [(''id'', i), (''result'', res)])]\<rparr>,
                JObj [(''id'', i), (''result'', res)])"
    by simp
qed

text \<open>C5 on the message with id 5 and result \<open>{ok: true}\<close>, private pair X, Y.\<close>

theorem send_wire_has_no_private_fields_witness:
  "trace \<lparr>isConnected = True, domains = [], ws = Some OPEN,
          trace = [WsSend (JObj [(''id'', JNum 5), (''result'', JObj [(''ok'', JBool True)])])]\<rparr>
     = [] @ [WsSend (JObj [(''id'', JNum 5), (''result'', JObj [(''ok'', JBool True)])])]
   \<and> \<not> has_key ''_domain'' (JObj [(''id'', JNum 5), (''result'', JObj [(''ok'', JBool True)])])
   \<and> \<not> has_key ''_method'' (JObj [(''id'', JNum 5), (''result'', JObj [(''ok'', JBool True)])])
   \<and> send (Suc 0) \<lparr>log_callable = True, middleware = (\<lambda>d m. None), json_parse = (\<lambda>s. None)\<rparr>
        (JObj [(''id'', JNum 5), (''result'', JObj [(''ok'', JBool True)]),
               (''_domain'', JStr ''X''), (''_method'', JStr ''Y'')])
        \<lparr>isConnected = True, domains = [], ws = Some OPEN, trace = []\<rparr>
      = Some (Returned,
              \<lparr>isConnected = True, domains = [], ws = Some OPEN,
               trace = [WsSend (JObj [(''id'', JNum 5), (''result'', JObj [(''ok'', JBool True)])])]\<rparr>,
              JObj [(''id'', JNum 5), (''result'', JObj [(''ok'', JBool True)])])"
  using send_wire_has_no_private_fields
    [of "Suc 0" "\<lparr>log_callable = True, middleware = (\<lambda>d m. None), json_parse = (\<lambda>s. None)\<rparr>"
        "JObj [(''id'', JNum 5), (''result'', JObj [(''ok'', JBool True)]),
               (''_domain'', JStr ''X''), (''_method'', JStr ''Y'')]"
        "\<lparr>isConnected = True, domains = [], ws = Some OPEN, trace = []\<rparr>"
        Returned
        "\<lparr>isConnected = True, domains = [], ws = Some OPEN,
          trace = [WsSend (JObj [(''id'', JNum 5), (''result'', JObj [(''ok'', JBool True)])])]\<rparr>"
        "JObj [(''id'', JNum 5), (''result'', JObj [(''ok'', JBool True)])]"
        "''X''" "''Y''" 0 "JNum 5" "JObj [(''ok'', JBool True)]"]
  by (simp add: Let_def)

text \<open>
  C7, as amended. With no socket attached \<open>send\<close> returns at once, for any argument.
  With a socket attached whose state is not \<open>OPEN\<close>, \<open>send\<close> of a message (a value
  other than \<open>undefined\<close> and \<open>null\<close>) returns without throwing and without a call of
  \<open>ws.send\<close>, provided the registry has nothing under the key pair that an absent
  \<open>_domain\<close>/\<open>_method\<close> reads as; a registered middleware function may have been
  called, and two nested calls are enough.
\<close>

theorem send_without_open_channel_is_silent:
  "(ws p = None \<longrightarrow> send (Suc k) e msg p = Some (Returned, p, msg))
   \<and> (ws p = Some rs \<and> rs \<noteq> OPEN \<and> \<not> nullish msg \<and> middleware e JUndefined JUndefined = None \<longrightarrow>
        (\<exists>p' msg' es. send (Suc (Suc k)) e msg p = Some (Returned, p', msg')
            \<and> p' = p\<lparr>trace := trace p @ es\<rparr> \<and> (\<forall>v. WsSend v \<notin> set es)))"
proof (intro conjI impI)
  assume "ws p = None"
  then show "send (Suc k) e msg p = Some (Returned, p, msg)" by simp
next
  assume a: "ws p = Some rs \<and> rs \<noteq> OPEN \<and> \<not> nullish msg \<and> middleware e JUndefined JUndefined = None"
  then have ws: "ws p = Some rs" and closed: "rs \<noteq> OPEN" and obj: "\<not> nullish msg"
    and sane: "middleware e JUndefined JUndefined = None" by simp_all
  show "\<exists>p' msg' es. send (Suc (Suc k)) e msg p = Some (Returned, p', msg')
            \<and> p' = p\<lparr>trace := trace p @ es\<rparr> \<and> (\<forall>v. WsSend v \<notin> set es)"
  proof (cases "middleware e (get_prop msg ''_domain'') (get_prop msg ''_method'')")
    case None
    from send_plain [OF ws obj None, of "Suc k"] closed
    have "send (Suc (Suc k)) e msg p =
            Some (Returned, p\<lparr>trace := trace p @ []\<rparr>,
                  delete_prop (delete_prop msg ''_domain'') ''_method'')"
      by simp
    then show ?thesis by fastforce
  next
    case (Some f)
    let ?t = "Transform (get_prop msg ''_domain'') (get_prop msg ''_method'') (get_prop msg ''result'')"
    let ?p1 = "p\<lparr>trace := trace p @ [?t]\<rparr>"
    let ?m1 = "JObj [(''id'', get_prop msg ''id''), (''result'', f (get_prop msg ''result''))]"
    have inner_mw: "middleware e (get_prop ?m1 ''_domain'') (get_prop ?m1 ''_method'') = None"
      using sane by simp
    have ws1: "ws ?p1 = Some rs" using ws by simp
    from send_plain [OF ws1 _ inner_mw, of k] closed
    have inner: "send (Suc k) e ?m1 ?p1 = Some (Returned, ?p1, ?m1)"
      by simp
    from send_transform [OF ws obj Some, of "Suc k"] inner
    have "send (Suc (Suc k)) e msg p = Some (Returned, p\<lparr>trace := trace p @ [?t]\<rparr>, msg)"
      by (simp del: send.simps)
    then show ?thesis by fastforce
  qed
qed

text \<open>C7 on a closing socket and a message whose pair X, Y is registered, and on a page
  with no socket, where even \<open>undefined\<close> is accepted.\<close>

theorem send_without_open_channel_is_silent_witness:
  "send (Suc (Suc 0))
     \<lparr>log_callable = True,
      middleware = (\<lambda>d m. if d = JStr ''X'' \<and> m = JStr ''Y'' then Some (\<lambda>r. JArr [r]) else None),
      json_parse = (\<lambda>s. None)\<rparr>
     (JObj [(''id'', JNum 5), (''result'', JNull), (''_domain'', JStr ''X''), (''_method'', JStr ''Y'')])
     \<lparr>isConnected = False, domains = [], ws = Some CLOSING, trace = []\<rparr>
   = Some (Returned,
           \<lparr>isConnected = False, domains = [], ws = Some CLOSING,
            trace = [Transform (JStr ''X'') (JStr ''Y'') JNull]\<rparr>,
           JObj [(''id'', JNum 5), (''result'', JNull), (''_domain'', JStr ''X''),
                 (''_method'', JStr ''Y'')])
   \<and> (\<exists>p' msg' es.
         send (Suc (Suc 0))
           \<lparr>log_callable = True,
            middleware = (\<lambda>d m. if d = JStr ''X'' \<and> m = JStr ''Y'' then Some (\<lambda>r. JArr [r]) else None),
            json_parse = (\<lambda>s. None)\<rparr>
           (JObj [(''id'', JNum 5), (''result'', JNull), (''_domain'', JStr ''X''),
                  (''_method'', JStr ''Y'')])
           \<lparr>isConnected = False, domains = [], ws = Some CLOSING, trace = []\<rparr>
         = Some (Returned, p', msg')
         \<and> p' = \<lparr>isConnected = False, domains = [], ws = Some CLOSING, trace = []\<rparr>
                   \<lparr>trace := [] @ es\<rparr>
         \<and> (\<forall>v. WsSend v \<notin> set es))
   \<and> send (Suc 0) \<lparr>log_callable = True, middleware = (\<lambda>d m. None), json_parse = (\<lambda>s. None)\<rparr>
        JUndefined \<lparr>isConnected = False, domains = [], ws = None, trace = []\<rparr>
      = Some (Returned, \<lparr>isConnected = False, domains = [], ws = None, trace = []\<rparr>, JUndefined)"
  using send_without_open_channel_is_silent
    [of "\<lparr>isConnected = False, domains = [], ws = Some CLOSING, trace = []\<rparr>" 0
        "\<lparr>log_callable = True,
          middleware = (\<lambda>d m. if d = JStr ''X'' \<and> m = JStr ''Y'' then Some (\<lambda>r. JArr [r]) else None),
          json_parse = (\<lambda>s. None)\<rparr>"
        "JObj [(''id'', JNum 5), (''result'', JNull), (''_domain'', JStr ''X''),
               (''_method'', JStr ''Y'')]"
        CLOSING]
    send_without_open_channel_is_silent
    [of "\<lparr>isConnected = False, domains = [], ws = None, trace = []\<rparr>" 0
        "\<lparr>log_callable = True, middleware = (\<lambda>d m. None), json_parse = (\<lambda>s. None)\<rparr>"
        JUndefined CLOSING]
  by (simp add: Let_def)

text \<open>
  C7 as first stated (no exception for every message whenever the socket is absent or not
  open) does not hold on a socket that is attached and closing: \<open>send(null)\<close> throws
  when it reads \<open>msg._domain\<close>, before the state of the socket is looked at; and with a
  function registered under the pair that absent keys read as, \<open>send\<close> of a plain
  message with id and result keeps calling itself, so that three nested calls do not finish.
  In both cases nothing is handed to \<open>ws.send\<close>.
\<close>

theorem send_not_open_counterexample:
  "send (Suc 0) \<lparr>log_callable = True, middleware = (\<lambda>d m. None), json_parse = (\<lambda>s. None)\<rparr>
     JNull \<lparr>isConnected = False, domains = [], ws = Some CLOSING, trace = []\<rparr>
   = Some (Thrown TypeError,
           \<lparr>isConnected = False, domains = [], ws = Some CLOSING, trace = []\<rparr>, JNull)
   \<and> send (Suc (Suc (Suc 0)))
     \<lparr>log_callable = True,
      middleware = (\<lambda>d m. if d = JUndefined \<and> m = JUndefined then Some (\<lambda>r. r) else None),
      json_parse = (\<lambda>s. None)\<rparr>
     (JObj [(''id'', JNum 5), (''result'', JNull)])
     \<lparr>isConnected = False, domains = [], ws = Some CLOSING, trace = []\<rparr>
   = None"
  by simp

text \<open>
  C9, as amended. With a socket attached, a function registered for the message's
  \<open>_domain\<close>/\<open>_method\<close> pair, and nothing registered under the key pair that an absent
  pair reads as: the function is called exactly once, on \<open>msg.result\<close>; its output goes
  into one nested \<open>send\<close> as the new object with the fields id (the same id) and result,
  which is transmitted if the socket is open; two nested calls are enough, and the caller's
  object is left as it was.
\<close>

theorem send_transforms_once:
  assumes "ws p = Some rs"
    and "middleware e (get_prop msg ''_domain'') (get_prop msg ''_method'') = Some f"
    and "middleware e JUndefined JUndefined = None"
  shows "send (Suc (Suc k)) e msg p =
           Some (Returned,
                 p\<lparr>trace := trace p @
                      Transform (get_prop msg ''_domain'') (get_prop msg ''_method'')
                        (get_prop msg ''result'') #
                      (if rs = OPEN
                       then [WsSend (JObj [(''id'', get_prop msg ''id''),
                                           (''result'', f (get_prop msg ''result''))])]
                       else [])\<rparr>,
                 msg)"
proof -
  have obj: "\<not> nullish msg"
  proof
    assume "nullish msg"
    then have "get_prop msg ''_domain'' = JUndefined" "get_prop msg ''_method'' = JUndefined"
      by (cases msg; simp)+
    with assms(2,3) show False by simp
  qed
  let ?t = "Transform (get_prop msg ''_domain'') (get_prop msg ''_method'') (get_prop msg ''result'')"
  let ?p1 = "p\<lparr>trace := trace p @ [?t]\<rparr>"
  let ?m1 = "JObj [(''id'', get_prop msg ''id''), (''result'', f (get_prop msg ''result''))]"
  have inner_mw: "middleware e (get_prop ?m1 ''_domain'') (get_prop ?m1 ''_method'') = None"
    using assms(3) by simp
  have ws1: "ws ?p1 = Some rs" using assms(1) by simp
  from send_plain [OF ws1 _ inner_mw, of k]
  have inner: "send (Suc k) e ?m1 ?p1 =
                 Some (Returned,
                       ?p1\<lparr>trace := trace ?p1 @ (if rs = OPEN then [WsSend ?m1] else [])\<rparr>, ?m1)"
    by simp
  from send_transform [OF assms(1) obj assms(2), of "Suc k"] inner
  show ?thesis by (simp del: send.simps)
qed

text \<open>C9 as amended, on an open socket and the pair X, Y, whose function wraps the result
  in an array.\<close>

theorem send_transforms_once_witness:
  "send (Suc (Suc 0))
     \<lparr>log_callable = True,
      middleware = (\<lambda>d m. if d = JStr ''X'' \<and> m = JStr ''Y'' then Some (\<lambda>r. JArr [r]) else None),
      json_parse = (\<lambda>s. None)\<rparr>
     (JObj [(''id'', JNum 5), (''result'', JNull), (''_domain'', JStr ''X''), (''_method'', JStr ''Y'')])
     \<lparr>isConnected = True, domains = [], ws = Some OPEN, trace = []\<rparr>
   = Some (Returned,
           \<lparr>isConnected = True, domains = [], ws = Some OPEN,
            trace = [Transform (JStr ''X'') (JStr ''Y'') JNull,
                     WsSend (JObj [(''id'', JNum 5), (''result'', JArr [JNull])])]\<rparr>,
           JObj [(''id'', JNum 5), (''result'', JNull), (''_domain'', JStr ''X''),
                 (''_method'', JStr ''Y'')])"
  using send_transforms_once
    [of "\<lparr>isConnected = True, domains = [], ws = Some OPEN, trace = []\<rparr>" OPEN
        "\<lparr>log_callable = True,
          middleware = (\<lambda>d m. if d = JStr ''X'' \<and> m = JStr ''Y'' then Some (\<lambda>r. JArr [r]) else None),
          json_parse = (\<lambda>s. None)\<rparr>"
        "JObj [(''id'', JNum 5), (''result'', JNull), (''_domain'', JStr ''X''),
               (''_method'', JStr ''Y'')]"
        "\<lambda>r. JArr [r]" 0]
  by simp

text \<open>
  C9 as first stated (for every message with a registered pair the function is called exactly
  once and its output is sent, with one nested call at most) does not hold when no socket is
  attached: \<open>send\<close> tests \<open>this.ws\<close> first and returns, so the function registered for
  X, Y is not called and the trace stays empty. Nor is one nested call the limit for every
  registry: the nested message has no pair, its keys read as \<open>undefined\<close>, and with a
  function registered under that pair too three nested calls do not finish.
\<close>

theorem send_transform_counterexample:
  "middleware
     \<lparr>log_callable = True,
      middleware = (\<lambda>d m. if d = JStr ''X'' \<and> m = JStr ''Y'' then Some (\<lambda>r. JArr [r]) else None),
      json_parse = (\<lambda>s. None)\<rparr> (JStr ''X'') (JStr ''Y'') \<noteq> None
   \<and> send (Suc (Suc 0))
     \<lparr>log_callable = True,
      middleware = (\<lambda>d m. if d = JStr ''X'' \<and> m = JStr ''Y'' then Some (\<lambda>r. JArr [r]) else None),
      json_parse = (\<lambda>s. None)\<rparr>
     (JObj [(''id'', JNum 5), (''result'', JNull), (''_domain'', JStr ''X''), (''_method'', JStr ''Y'')])
     \<lparr>isConnected = False, domains = [], ws = None, trace = []\<rparr>
   = Some (Returned,
           \<lparr>isConnected = False, domains = [], ws = None, trace = []\<rparr>,
           JObj [(''id'', JNum 5), (''result'', JNull), (''_domain'', JStr ''X''),
                 (''_method'', JStr ''Y'')])
   \<and> send (Suc (Suc (Suc 0)))
     \<lparr>log_callable = True,
      middleware = (\<lambda>d m. if (d = JStr ''X'' \<and> m = JStr ''Y'') \<or> (d = JUndefined \<and> m = JUndefined)
                           then Some (\<lambda>r. JArr [r]) else None),
      json_parse = (\<lambda>s. None)\<rparr>
     (JObj [(''id'', JNum 5), (''result'', JNull), (''_domain'', JStr ''X''), (''_method'', JStr ''Y'')])
     \<lparr>isConnected = True, domains = [], ws = Some OPEN, trace = []\<rparr>
   = None"
  by simp

text \<open>
  C10. \<open>send\<close> changes the object it is given: with a socket attached and nothing
  registered for the object's pair, the caller's object comes back without its \<open>_domain\<close>
  and \<open>_method\<close> properties, whatever the state of the socket; when the socket is not open
  nothing else has changed.
\<close>

theorem send_strips_callers_object:
  assumes "ws p = Some rs"
    and "middleware e (get_prop (JObj kvs) ''_domain'') (get_prop (JObj kvs) ''_method'') = None"
  shows "\<exists>p'. send (Suc k) e (JObj kvs) p =
                Some (Returned, p',
                      JObj (filter (\<lambda>kv. fst kv \<noteq> ''_method'')
                              (filter (\<lambda>kv. fst kv \<noteq> ''_domain'') kvs)))
              \<and> (rs \<noteq> OPEN \<longrightarrow> p' = p)"
  using send_plain [OF assms(1) _ assms(2), of k] by simp

text \<open>C10 on a socket that is still connecting.\<close>

theorem send_strips_callers_object_witness:
  "\<exists>p'. send (Suc 0) \<lparr>log_callable = True, middleware = (\<lambda>d m. None), json_parse = (\<lambda>s. None)\<rparr>
          (JObj [(''id'', JNum 5), (''_domain'', JStr ''X''), (''result'', JNull),
                 (''_method'', JStr ''Y'')])
          \<lparr>isConnected = False, domains = [], ws = Some CONNECTING, trace = []\<rparr>
        = Some (Returned, p', JObj [(''id'', JNum 5), (''result'', JNull)])
      \<and> p' = \<lparr>isConnected = False, domains = [], ws = Some CONNECTING, trace = []\<rparr>"
  using send_strips_callers_object
    [of "\<lparr>isConnected = False, domains = [], ws = Some CONNECTING, trace = []\<rparr>" CONNECTING
        "\<lparr>log_callable = True, middleware = (\<lambda>d m. None), json_parse = (\<lambda>s. None)\<rparr>"
        "[(''id'', JNum 5), (''_domain'', JStr ''X''), (''result'', JNull),
          (''_method'', JStr ''Y'')]" 0]
  by simp

subsection \<open>Requests from the frontend\<close>

text \<open>
  C4. A request whose method part (after the first dot) is neither \<open>enable\<close> nor
  \<open>disable\<close> and whose domain part (before the first dot) is not in the list of enabled
  domains is dropped: \<open>handleIncomming\<close> returns, nothing is thrown, and the state with its
  trace is the same as before, so no \<open>incomming\<close> event and no outbound message. The
  request may arrive as an object or as text that parses to it.
\<close>

theorem handleIncomming_drops_disabled_domain:
  assumes "payload = JObj kvs \<or> (payload = JStr s \<and> json_parse e s = Some (JObj kvs))"
    and "get_prop (JObj kvs) ''method'' = JStr m"
    and "js_slice_from m (js_indexOf m (CHR ''.'') + 1) \<noteq> ''enable''"
    and "js_slice_from m (js_indexOf m (CHR ''.'') + 1) \<noteq> ''disable''"
    and "js_slice m 0 (js_indexOf m (CHR ''.'')) \<notin> set (domains p)"
  shows "handleIncomming k e payload p = Some (Returned, p)"
proof -
  have "isDomainSupported (JObj kvs) p = Inr False"
    using assms(2,5) by (auto simp: isDomainSupported_def js_includes_def Let_def)
  with assms(2,3,4) have "handleIncomming k e (JObj kvs) p = Some (Returned, p)"
    by (simp add: handleIncomming_def Let_def)
  moreover have "handleIncomming k e payload p = handleIncomming k e (JObj kvs) p"
    using assms(1) by (auto simp: handleIncomming_def)
  ultimately show ?thesis by simp
qed

text \<open>C4 on \<open>Network.loadingFinished\<close> while only Page is enabled.\<close>

theorem handleIncomming_drops_disabled_domain_witness:
  "handleIncomming 0 \<lparr>log_callable = True, middleware = (\<lambda>d m. None), json_parse = (\<lambda>s. None)\<rparr>
     (JObj [(''id'', JNum 2), (''method'', JStr ''Network.loadingFinished'')])
     \<lparr>isConnected = True, domains = [''Page''], ws = Some OPEN, trace = []\<rparr>
   = Some (Returned, \<lparr>isConnected = True, domains = [''Page''], ws = Some OPEN, trace = []\<rparr>)"
  using handleIncomming_drops_disabled_domain
    [of "JObj [(''id'', JNum 2), (''method'', JStr ''Network.loadingFinished'')]"
        "[(''id'', JNum 2), (''method'', JStr ''Network.loadingFinished'')]"
        "[]"
        "\<lparr>log_callable = True, middleware = (\<lambda>d m. None), json_parse = (\<lambda>s. None)\<rparr>"
        "''Network.loadingFinished''"
        "\<lparr>isConnected = True, domains = [''Page''], ws = Some OPEN, trace = []\<rparr>" 0]
  by (simp add: js_indexOf_def js_slice_def js_slice_from_def clamp_index_def)

text \<open>What the branch for \<open>disable\<close> does with a request \<open>D.disable\<close> (no dot in D) and
  id \<open>n\<close>: the list of domains is the one \<open>disable(D)\<close> leaves, in which D no longer
  occurs, and the only event added to the trace is the call \<open>this.emit({id: n, params: {}})\<close>.\<close>

lemma handleIncomming_disable:
  assumes "payload = JObj kvs \<or> (payload = JStr s \<and> json_parse e s = Some (JObj kvs))"
    and "get_prop (JObj kvs) ''method'' = JStr (D @ ''.disable'')"
    and "CHR ''.'' \<notin> set D"
    and "get_prop (JObj kvs) ''id'' = n"
    and "distinct (domains p)"
  shows "handleIncomming k e payload p =
           Some (Returned,
                 (disable D p)\<lparr>trace := trace p @ [Emit (JObj [(''id'', n), (''params'', JObj [])]) []]\<rparr>)
         \<and> D \<notin> set (domains (disable D p))
         \<and> trace (disable D p) = trace p"
proof -
  have parts:
    "js_slice (D @ ''.disable'') 0 (js_indexOf (D @ ''.disable'') (CHR ''.'')) = D"
    "js_slice_from (D @ ''.disable'') (js_indexOf (D @ ''.disable'') (CHR ''.'') + 1) = ''disable''"
    using split_dotted [OF assms(3), of "''disable''"] by simp_all
  have tr: "trace (disable D p) = trace p"
    by (simp add: disable_def Let_def)
  have "handleIncomming k e (JObj kvs) p =
          Some (Returned,
                (disable D p)\<lparr>trace := trace p @ [Emit (JObj [(''id'', n), (''params'', JObj [])]) []]\<rparr>)"
    using assms(2,4) by (simp add: handleIncomming_def Let_def parts emit_def tr)
  moreover have "handleIncomming k e payload p = handleIncomming k e (JObj kvs) p"
    using assms(1) by (auto simp: handleIncomming_def)
  ultimately show ?thesis
    using disable_not_member [OF assms(5), of D] tr by simp
qed

text \<open>
  C8. Claimed: a request \<open>D.disable\<close> with id \<open>n\<close> disables D, signals completion back
  using the same id, and emits no \<open>incomming\<close> event. On \<open>Network.disable\<close> with id 7
  and an open socket, Network is disabled and no \<open>incomming\<close> event is emitted, but no
  completion goes back: nothing is handed to \<open>ws.send\<close>; the only call is \<open>this.emit\<close>
  with the object \<open>{id: 7, params: {}}\<close> in the place of the event name and with no
  arguments. The branch for \<open>enable\<close> calls \<open>this.send\<close> on the same object, as the
  second equation shows.
\<close>

theorem disable_request_not_acknowledged:
  "handleIncomming (Suc 0) \<lparr>log_callable = True, middleware = (\<lambda>d m. None), json_parse = (\<lambda>s. None)\<rparr>
     (JObj [(''id'', JNum 7), (''method'', JStr ''Network.disable'')])
     \<lparr>isConnected = True, domains = [''Network'', ''Page''], ws = Some OPEN, trace = []\<rparr>
   = Some (Returned,
           \<lparr>isConnected = True, domains = [''Page''], ws = Some OPEN,
            trace = [Emit (JObj [(''id'', JNum 7), (''params'', JObj [])]) []]\<rparr>)
   \<and> handleIncomming (Suc 0) \<lparr>log_callable = True, middleware = (\<lambda>d m. None), json_parse = (\<lambda>s. None)\<rparr>
     (JObj [(''id'', JNum 7), (''method'', JStr ''Network.enable'')])
     \<lparr>isConnected = True, domains = [''Network'', ''Page''], ws = Some OPEN, trace = []\<rparr>
   = Some (Returned,
           \<lparr>isConnected = True, domains = [''Network'', ''Page''], ws = Some OPEN,
            trace = [WsSend (JObj [(''id'', JNum 7), (''params'', JObj [])])]\<rparr>)"
  by (simp add: handleIncomming_def isDomainSupported_def js_includes_def js_indexOf_def
      js_slice_def js_slice_from_def clamp_index_def Let_def disable_def js_splice_def emit_def)

text \<open>
  C2, as amended. A request with method \<open>D.enable\<close> (no dot in D) and id \<open>n\<close>, for a
  domain D that is in the list of enabled domains, with a callable logger and nothing
  registered under the key pair that an absent \<open>_domain\<close>/\<open>_method\<close> reads as:
  \<open>handleIncomming\<close> returns, the list of domains is unchanged (D stays enabled), and if
  the socket is attached and open exactly one message is transmitted, the object
  \<open>{id: n, params: {}}\<close>; otherwise nothing is transmitted.
\<close>

theorem enable_request_acknowledged:
  assumes "payload = JObj kvs \<or> (payload = JStr s \<and> json_parse e s = Some (JObj kvs))"
    and "get_prop (JObj kvs) ''method'' = JStr (D @ ''.enable'')"
    and "CHR ''.'' \<notin> set D"
    and "get_prop (JObj kvs) ''id'' = n"
    and "js_includes (domains p) D"
    and "log_callable e"
    and "middleware e JUndefined JUndefined = None"
  shows "handleIncomming (Suc k) e payload p =
           Some (Returned,
                 p\<lparr>trace := trace p @
                      (if ws p = Some OPEN
                       then [WsSend (JObj [(''id'', n), (''params'', JObj [])])]
                       else [])\<rparr>)"
proof -
  have parts:
    "js_slice (D @ ''.enable'') 0 (js_indexOf (D @ ''.enable'') (CHR ''.'')) = D"
    "js_slice_from (D @ ''.enable'') (js_indexOf (D @ ''.enable'') (CHR ''.'') + 1) = ''enable''"
    using split_dotted [OF assms(3), of "''enable''"] by simp_all
  let ?ack = "JObj [(''id'', n), (''params'', JObj [])]"
  have snd: "map_option (\<lambda>(r, p2, _). (r, p2)) (send (Suc k) e ?ack p) =
          Some (Returned,
                p\<lparr>trace := trace p @ (if ws p = Some OPEN then [WsSend ?ack] else [])\<rparr>)"
  proof (cases "ws p")
    case None
    then show ?thesis by simp
  next
    case (Some rs)
    have "middleware e (get_prop ?ack ''_domain'') (get_prop ?ack ''_method'') = None"
      using assms(7) by simp
    from send_plain [OF Some _ this, of k] show ?thesis
      using Some by simp
  qed
  have "handleIncomming (Suc k) e (JObj kvs) p =
          Some (Returned,
                p\<lparr>trace := trace p @ (if ws p = Some OPEN then [WsSend ?ack] else [])\<rparr>)"
    using assms(2,4,5,6) snd
    by (simp add: handleIncomming_def isDomainSupported_def Let_def parts del: send.simps)
  moreover have "handleIncomming (Suc k) e payload p = handleIncomming (Suc k) e (JObj kvs) p"
    using assms(1) by (auto simp: handleIncomming_def)
  ultimately show ?thesis by simp
qed

text \<open>C2 as amended, on the text of a request \<open>Network.enable\<close> with id 1.\<close>

theorem enable_request_acknowledged_witness:
  "handleIncomming (Suc 0)
     \<lparr>log_callable = True, middleware = (\<lambda>d m. None),
      json_parse = (\<lambda>s. Some (JObj [(''id'', JNum 1), (''method'', JStr ''Network.enable'')]))\<rparr>
     (JStr ''{\"id\":1,\"method\":\"Network.enable\"}'')
     \<lparr>isConnected = True, domains = [''Network''], ws = Some OPEN, trace = []\<rparr>
   = Some (Returned,
           \<lparr>isConnected = True, domains = [''Network''], ws = Some OPEN,
            trace = [WsSend (JObj [(''id'', JNum 1), (''params'', JObj [])])]\<rparr>)"
  using enable_request_acknowledged
    [of "JStr ''{\"id\":1,\"method\":\"Network.enable\"}''"
        "[(''id'', JNum 1), (''method'', JStr ''Network.enable'')]"
        "''{\"id\":1,\"method\":\"Network.enable\"}''"
        "\<lparr>log_callable = True, middleware = (\<lambda>d m. None),
          json_parse = (\<lambda>s. Some (JObj [(''id'', JNum 1), (''method'', JStr ''Network.enable'')]))\<rparr>"
        "''Network''" "JNum 1"
        "\<lparr>isConnected = True, domains = [''Network''], ws = Some OPEN, trace = []\<rparr>" 0]
  by (simp add: js_includes_def)

text \<open>
  C2 as first stated (exactly one acknowledgment with payload \<open>{id: n, result: {}}\<close>) does
  not hold: on an open socket the object transmitted for id 1 has the key \<open>params\<close>, not
  \<open>result\<close>, and with no socket attached nothing is transmitted at all.
\<close>

theorem enable_request_ack_counterexample:
  "handleIncomming 1 \<lparr>log_callable = True, middleware = (\<lambda>d m. None), json_parse = (\<lambda>s. None)\<rparr>
     (JObj [(''id'', JNum 1), (''method'', JStr ''Network.enable'')])
     \<lparr>isConnected = True, domains = [''Network''], ws = Some OPEN, trace = []\<rparr>
   = Some (Returned,
           \<lparr>isConnected = True, domains = [''Network''], ws = Some OPEN,
            trace = [WsSend (JObj [(''id'', JNum 1), (''params'', JObj [])])]\<rparr>)
   \<and> WsSend (JObj [(''id'', JNum 1), (''params'', JObj [])])
       \<noteq> WsSend (JObj [(''id'', JNum 1), (''result'', JObj [])])
   \<and> handleIncomming 1 \<lparr>log_callable = True, middleware = (\<lambda>d m. None), json_parse = (\<lambda>s. None)\<rparr>
     (JObj [(''id'', JNum 1), (''method'', JStr ''Network.enable'')])
     \<lparr>isConnected = False, domains = [''Network''], ws = None, trace = []\<rparr>
   = Some (Returned, \<lparr>isConnected = False, domains = [''Network''], ws = None, trace = []\<rparr>)"
  by (simp add: handleIncomming_def isDomainSupported_def js_includes_def js_indexOf_def
      js_slice_def js_slice_from_def clamp_index_def Let_def)

end
